theory Spec2Isabelle
  imports Main "HOL-Library.Sublist" "HOL-Library.Word"
begin

section \<open>The process environment\<close>

text \<open>
  The process environment is a finite table from names to values. \<open>os.Getenv\<close> returns
  the empty string for a name that is not set, so that the callers cannot tell an unset
  variable from one set to the empty string.
\<close>

type_synonym environ = "string \<rightharpoonup> string"

definition Getenv :: "environ \<Rightarrow> string \<Rightarrow> string" where
  "Getenv env name = (case env name of None \<Rightarrow> [] | Some v \<Rightarrow> v)"

section \<open>Inline substitution (config.go, resolveEnvVar)\<close>

text \<open>
  Go strings are byte sequences: \<open>len\<close> counts bytes, \<open>val[i]\<close> is a byte and
  \<open>val[i:j]\<close> a byte slice. Every index below is guarded by the length tests of the
  source, as it is there.
\<close>

definition resolveEnvVar :: "environ \<Rightarrow> string \<Rightarrow> string" where
  "resolveEnvVar env val =
     (if length val = 0 then val
      else if length val > 3 \<and> take 2 val = ''${'' \<and> val ! (length val - 1) = CHR ''}'' then
        (let envVarName = drop 2 (take (length val - 1) val);
             envValue = Getenv env envVarName
         in if envValue \<noteq> [] then envValue else val)
      else if val ! 0 = CHR ''$'' then
        (let envVarName = drop 1 val;
             envValue = Getenv env envVarName
         in if envValue \<noteq> [] then envValue else val)
      else val)"

text \<open>
  The rule as the specification words it: a lookup that substitutes when the variable is
  set and non-empty and otherwise keeps the original string, applied to the name enclosed
  in \<open>${...}\<close> for a string of at least 4 characters of that form, to everything after
  the \<open>$\<close> for another string beginning with \<open>$\<close>, and to nothing otherwise.
\<close>

definition substitute_or_keep :: "environ \<Rightarrow> string \<Rightarrow> string \<Rightarrow> string" where
  "substitute_or_keep env name s =
     (case env name of
        None \<Rightarrow> s
      | Some v \<Rightarrow> (if v = [] then s else v))"

definition inline_substitution_spec :: "environ \<Rightarrow> string \<Rightarrow> string" where
  "inline_substitution_spec env s =
     (if 4 \<le> length s \<and> prefix ''${'' s \<and> suffix ''}'' s
        then substitute_or_keep env (butlast (drop 2 s)) s
      else if prefix ''$'' s
        then substitute_or_keep env (tl s) s
      else s)"

section \<open>Package strings\<close>

text \<open>
  The library functions the configuration code calls, on byte strings. \<open>ToLower\<close> and
  \<open>TrimSpace\<close> are modelled on ASCII: Go's versions also map and trim the Unicode
  letters and spaces outside ASCII, which field names, tags and paths made of ASCII
  characters never contain. \<open>Split\<close> is \<open>strings.Split\<close> for a separator of one
  byte (the source only splits on \<open>","\<close> and \<open>"."\<close>), and \<open>SplitN2 s sep\<close> is
  \<open>strings.SplitN(s, sep, 2)\<close>: the string itself when the separator does not occur,
  otherwise what is before and what is after its first occurrence.
\<close>

definition upper_letters :: string where
  "upper_letters = ''ABCDEFGHIJKLMNOPQRSTUVWXYZ''"

definition lower_letters :: string where
  "lower_letters = ''abcdefghijklmnopqrstuvwxyz''"

definition is_upper :: "char \<Rightarrow> bool" where
  "is_upper c = (c \<in> set upper_letters)"

definition to_lower :: "char \<Rightarrow> char" where
  "to_lower c = (case map_of (zip upper_letters lower_letters) c of None \<Rightarrow> c | Some l \<Rightarrow> l)"

definition ToLower :: "string \<Rightarrow> string" where
  "ToLower s = map to_lower s"

definition is_space :: "char \<Rightarrow> bool" where
  "is_space c = (c \<in> set [CHR 0x09, CHR 0x0A, CHR 0x0B, CHR 0x0C, CHR 0x0D, CHR 0x20])"

definition TrimSpace :: "string \<Rightarrow> string" where
  "TrimSpace s = rev (dropWhile is_space (rev (dropWhile is_space s)))"

fun Split :: "string \<Rightarrow> char \<Rightarrow> string list" where
  "Split [] sep = [[]]"
| "Split (c # s) sep =
     (if c = sep then [] # Split s sep
      else (case Split s sep of [] \<Rightarrow> [[c]] | p # ps \<Rightarrow> (c # p) # ps))"

fun Cut :: "string \<Rightarrow> string \<Rightarrow> (string \<times> string) option" where
  "Cut [] sep = (if sep = [] then Some ([], []) else None)"
| "Cut (c # s) sep =
     (if prefix sep (c # s) then Some ([], drop (length sep) (c # s))
      else (case Cut s sep of None \<Rightarrow> None | Some (before, after) \<Rightarrow> Some (c # before, after)))"

definition SplitN2 :: "string \<Rightarrow> string \<Rightarrow> string list" where
  "SplitN2 s sep = (case Cut s sep of None \<Rightarrow> [s] | Some (before, after) \<Rightarrow> [before, after])"

section \<open>Package strconv\<close>

text \<open>
  \<open>strconv.ParseInt(s, 10, 64)\<close> accepts an optional sign followed by at least one
  decimal digit and fails outside the range of a signed 64-bit integer;
  \<open>strconv.ParseBool\<close> accepts the twelve spellings below. \<open>strconv.ParseFloat\<close> is a
  parameter of the model (see \<open>sys\<close>).
\<close>

definition digit_value :: "char \<Rightarrow> nat option" where
  "digit_value c = map_of (zip ''0123456789'' [0, 1, 2, 3, 4, 5, 6, 7, 8, 9]) c"

fun digits_value :: "nat \<Rightarrow> string \<Rightarrow> nat option" where
  "digits_value acc [] = Some acc"
| "digits_value acc (c # s) =
     (case digit_value c of None \<Rightarrow> None | Some d \<Rightarrow> digits_value (10 * acc + d) s)"

definition ParseUint :: "string \<Rightarrow> nat option" where
  "ParseUint s = (if s = [] then None else digits_value 0 s)"

definition ParseInt :: "string \<Rightarrow> int option" where
  "ParseInt s =
     (case s of
        [] \<Rightarrow> None
      | c # r \<Rightarrow>
          (let neg = (c = CHR ''-'');
               ds = (if c = CHR ''+'' \<or> c = CHR ''-'' then r else s)
           in case ParseUint ds of
                None \<Rightarrow> None
              | Some un \<Rightarrow>
                  if \<not> neg \<and> un \<ge> 9223372036854775808 then None
                  else if neg \<and> un > 9223372036854775808 then None
                  else Some (if neg then - int un else int un)))"

definition ParseBool :: "string \<Rightarrow> bool option" where
  "ParseBool s =
     (if s \<in> set [''1'', ''t'', ''T'', ''TRUE'', ''true'', ''True''] then Some True
      else if s \<in> set [''0'', ''f'', ''F'', ''FALSE'', ''false'', ''False''] then Some False
      else None)"

section \<open>Package reflect: types and values\<close>

text \<open>
  The configuration object is whatever struct the caller passes by pointer; the code
  inspects it through \<open>reflect\<close>. A value is modelled as the tree reflection walks:
  a leaf of one of the kinds the code switches on, a struct with its fields in declaration
  order (each with its name and its \<open>yaml\<close> and \<open>json\<close> tags, empty when absent),
  a pointer, or a value of a kind the code has no case for (\<open>VOther\<close>). A pointer carries
  its element type, which \<open>reflect.New\<close> needs, and is either nil or the address and the
  value of what it points to. Signed integers of every width are held as the 64-bit value
  that \<open>Value.Int\<close> returns; \<open>int\<close> is taken to be 64 bits wide. Floating-point values
  are of an arbitrary type \<open>'f\<close> with a zero.

  Two objects of the graph are assumed not to share a pointee, and types are finite trees:
  a struct type that contains a pointer to itself makes \<open>registerFlags\<close> allocate and
  descend without end and is outside this model.

  A field is exported when its name begins with an upper-case letter.
\<close>

datatype ikind = KInt | KInt8 | KInt16 | KInt32 | KInt64

datatype fkind = KFloat32 | KFloat64

datatype okind =
    KUint | KUint8 | KUint16 | KUint32 | KUint64 | KUintptr
  | KComplex64 | KComplex128
  | KArray | KChan | KFunc | KInterface | KMap | KSlice | KUnsafePointer

record StructField =
  Name :: string
  yamlTag :: string
  jsonTag :: string

datatype ty =
    TString
  | TInt ikind
  | TBool
  | TFloat fkind
  | TPtr ty
  | TStruct "(StructField \<times> ty) list"
  | TOther okind

type_synonym addr = nat

datatype 'f val =
    VString string
  | VInt ikind "64 word"
  | VBool bool
  | VFloat fkind 'f
  | VPtr ty "(addr \<times> 'f val) option"
  | VStruct "(StructField \<times> 'f val) list"
  | VOther okind

fun zero :: "ty \<Rightarrow> ('f::zero) val"
  and zero_fields :: "(StructField \<times> ty) list \<Rightarrow> (StructField \<times> ('f::zero) val) list" where
  "zero TString = VString []"
| "zero (TInt k) = VInt k 0"
| "zero TBool = VBool False"
| "zero (TFloat k) = VFloat k 0"
| "zero (TPtr t) = VPtr t None"
| "zero (TStruct fs) = VStruct (zero_fields fs)"
| "zero (TOther k) = VOther k"
| "zero_fields [] = []"
| "zero_fields ((f, t) # fs) = (f, zero t) # zero_fields fs"

definition IsExported :: "StructField \<Rightarrow> bool" where
  "IsExported field = (case Name field of [] \<Rightarrow> False | c # _ \<Rightarrow> is_upper c)"


section \<open>Package pflag: the flag set of the command\<close>

text \<open>
  The persistent flag set of the command: the flags in the order of their definition, each
  with its current value (the default until the command line is parsed) and whether the
  command line set it. The typed getters return the zero value for a flag that is not
  defined or is of another type, as \<open>pflag\<close> does (the source drops the error).
\<close>

datatype 'f FlagValue =
    FString string
  | FInt64 "64 word"
  | FBool bool
  | FFloat64 'f
  | FStringSlice "string list"

record 'f Flag =
  fl_name :: string
  fl_value :: "'f FlagValue"
  fl_usage :: string
  fl_changed :: bool

definition Lookup :: "'f Flag list \<Rightarrow> string \<Rightarrow> 'f Flag option" where
  "Lookup fs name = find (\<lambda>f. fl_name f = name) fs"

definition Changed :: "'f Flag list \<Rightarrow> string \<Rightarrow> bool" where
  "Changed fs name = (case Lookup fs name of None \<Rightarrow> False | Some f \<Rightarrow> fl_changed f)"

definition GetString :: "'f Flag list \<Rightarrow> string \<Rightarrow> string" where
  "GetString fs name =
     (case Lookup fs name of
        Some f \<Rightarrow> (case fl_value f of FString s \<Rightarrow> s | _ \<Rightarrow> [])
      | None \<Rightarrow> [])"

definition GetInt64 :: "'f Flag list \<Rightarrow> string \<Rightarrow> 64 word" where
  "GetInt64 fs name =
     (case Lookup fs name of
        Some f \<Rightarrow> (case fl_value f of FInt64 i \<Rightarrow> i | _ \<Rightarrow> 0)
      | None \<Rightarrow> 0)"

definition GetBool :: "'f Flag list \<Rightarrow> string \<Rightarrow> bool" where
  "GetBool fs name =
     (case Lookup fs name of
        Some f \<Rightarrow> (case fl_value f of FBool b \<Rightarrow> b | _ \<Rightarrow> False)
      | None \<Rightarrow> False)"

definition GetFloat64 :: "('f::zero) Flag list \<Rightarrow> string \<Rightarrow> 'f" where
  "GetFloat64 fs name =
     (case Lookup fs name of
        Some f \<Rightarrow> (case fl_value f of FFloat64 x \<Rightarrow> x | _ \<Rightarrow> 0)
      | None \<Rightarrow> 0)"

definition GetStringSlice :: "'f Flag list \<Rightarrow> string \<Rightarrow> string list" where
  "GetStringSlice fs name =
     (case Lookup fs name of
        Some f \<Rightarrow> (case fl_value f of FStringSlice ss \<Rightarrow> ss | _ \<Rightarrow> [])
      | None \<Rightarrow> [])"

section \<open>The state of a run\<close>

text \<open>
  What a run changes besides the configuration object: the flag set, the allocator
  (\<open>heap_next\<close> is the next fresh address) and the lines written to standard error,
  one constructor of \<open>diag\<close> for each format string of flag.go.
\<close>

datatype diag =
    WarnInvalidFormat string
  | WarnEnvNotSet string
  | ErrEmptyPath
  | ErrNotAStruct string string
  | ErrFieldNotFound string string
  | ErrInvalidField string string
  | ErrNotStructOrPointer string string
  | ErrCannotSet string string
  | ErrConvertInt string string
  | ErrConvertBool string string
  | ErrConvertFloat string string
  | ErrUnsupportedType string

record 'f world =
  flagset :: "'f Flag list"
  heap_next :: addr
  stderr :: "diag list"

definition define_flag :: "'f world \<Rightarrow> string \<Rightarrow> 'f FlagValue \<Rightarrow> string \<Rightarrow> 'f world" where
  "define_flag w flagName v usage =
     w\<lparr>flagset := flagset w @
        [\<lparr>fl_name = flagName, fl_value = v, fl_usage = usage, fl_changed = False\<rparr>]\<rparr>"

definition new_ptr :: "('f::zero) world \<Rightarrow> ty \<Rightarrow> 'f world \<times> addr \<times> 'f val" where
  "new_ptr w t = (w\<lparr>heap_next := Suc (heap_next w)\<rparr>, heap_next w, zero t)"

definition Fprintf :: "'f world \<Rightarrow> diag \<Rightarrow> 'f world" where
  "Fprintf w d = w\<lparr>stderr := stderr w @ [d]\<rparr>"

section \<open>Flag registration (config.go, registerFlags)\<close>

text \<open>
  \<open>registerFlags w v pfx\<close> is called on the value \<open>v\<close> that the \<open>config\<close> pointer
  refers to (the source dereferences it first and returns when it is not a struct).
  \<open>registerFlags_fields\<close> is the loop over the fields and \<open>registerFlags_field\<close> the
  switch on the kind of one exported field. All fields reached are reached through
  exported fields of an addressable struct, so \<open>CanSet\<close> and \<open>CanInterface\<close> hold where
  the source tests them. A definition of a flag is recorded by \<open>define_flag\<close>; what
  \<open>pflag\<close> does with a name defined twice is in \<open>New\<close>.

  The recursion descends into a freshly allocated zero value, which is not a part of the
  argument: termination is by the depth of the value, where a nil pointer counts for the
  depth of its element type.
\<close>

definition parts0 :: "string \<Rightarrow> string" where
  "parts0 tag = (case Split tag CHR '','' of [] \<Rightarrow> [] | p # _ \<Rightarrow> p)"

definition fieldName :: "StructField \<Rightarrow> string" where
  "fieldName field =
     (if yamlTag field \<noteq> [] then
        (if parts0 (yamlTag field) \<noteq> [] then parts0 (yamlTag field) else Name field)
      else Name field)"

definition flagNameOf :: "string \<Rightarrow> StructField \<Rightarrow> string" where
  "flagNameOf pfx field =
     (let name = fieldName field
      in if pfx \<noteq> [] then pfx @ ''.'' @ name else name)"

fun tdepth :: "ty \<Rightarrow> nat" and tdepth_fields :: "(StructField \<times> ty) list \<Rightarrow> nat" where
  "tdepth (TPtr t) = Suc (tdepth t)"
| "tdepth (TStruct fs) = Suc (tdepth_fields fs)"
| "tdepth TString = 0"
| "tdepth (TInt k) = 0"
| "tdepth TBool = 0"
| "tdepth (TFloat k) = 0"
| "tdepth (TOther k) = 0"
| "tdepth_fields [] = 0"
| "tdepth_fields ((f, t) # fs) = Suc (tdepth t + tdepth_fields fs)"

fun vdepth :: "'f val \<Rightarrow> nat" and vdepth_fields :: "(StructField \<times> 'f val) list \<Rightarrow> nat" where
  "vdepth (VPtr t None) = Suc (tdepth t)"
| "vdepth (VPtr t (Some (a, x))) = Suc (vdepth x)"
| "vdepth (VStruct fs) = Suc (vdepth_fields fs)"
| "vdepth (VString s) = 0"
| "vdepth (VInt k i) = 0"
| "vdepth (VBool b) = 0"
| "vdepth (VFloat k x) = 0"
| "vdepth (VOther k) = 0"
| "vdepth_fields [] = 0"
| "vdepth_fields ((f, v) # fs) = Suc (vdepth v + vdepth_fields fs)"

lemma vdepth_zero:
  "vdepth (zero t :: ('f::zero) val) = tdepth t"
  "vdepth_fields (zero_fields fs :: (StructField \<times> ('f::zero) val) list) = tdepth_fields fs"
  by (induction t and fs rule: zero_zero_fields.induct) simp_all

function registerFlags :: "('f::zero) world \<Rightarrow> 'f val \<Rightarrow> string \<Rightarrow> 'f world \<times> 'f val"
  and registerFlags_fields ::
    "('f::zero) world \<Rightarrow> (StructField \<times> 'f val) list \<Rightarrow> string \<Rightarrow>
       'f world \<times> (StructField \<times> 'f val) list"
  and registerFlags_field :: "('f::zero) world \<Rightarrow> 'f val \<Rightarrow> string \<Rightarrow> 'f world \<times> 'f val" where
  "registerFlags w (VStruct fs) pfx =
     (let (w', fs') = registerFlags_fields w fs pfx in (w', VStruct fs'))"
| "registerFlags w (VString s) pfx = (w, VString s)"
| "registerFlags w (VInt k i) pfx = (w, VInt k i)"
| "registerFlags w (VBool b) pfx = (w, VBool b)"
| "registerFlags w (VFloat k x) pfx = (w, VFloat k x)"
| "registerFlags w (VPtr t p) pfx = (w, VPtr t p)"
| "registerFlags w (VOther k) pfx = (w, VOther k)"
| "registerFlags_fields w [] pfx = (w, [])"
| "registerFlags_fields w ((field, fieldValue) # rest) pfx =
     (if \<not> IsExported field then
        (let (w', rest') = registerFlags_fields w rest pfx
         in (w', (field, fieldValue) # rest'))
      else
        (let flagName = flagNameOf pfx field;
             (w1, fieldValue') = registerFlags_field w fieldValue flagName;
             (w', rest') = registerFlags_fields w1 rest pfx
         in (w', (field, fieldValue') # rest')))"
| "registerFlags_field w (VPtr t None) flagName =
     (let (w0, a, x) = new_ptr w t;
          (w', x') = registerFlags w0 x flagName
      in (w', VPtr t (Some (a, x'))))"
| "registerFlags_field w (VPtr t (Some (a, x))) flagName =
     (let (w', x') = registerFlags w x flagName in (w', VPtr t (Some (a, x'))))"
| "registerFlags_field w (VStruct fs) flagName = registerFlags w (VStruct fs) flagName"
| "registerFlags_field w (VString s) flagName = (define_flag w flagName (FString s) (''Set '' @ flagName), VString s)"
| "registerFlags_field w (VInt k i) flagName = (define_flag w flagName (FInt64 i) (''Set '' @ flagName), VInt k i)"
| "registerFlags_field w (VBool b) flagName = (define_flag w flagName (FBool b) (''Set '' @ flagName), VBool b)"
| "registerFlags_field w (VFloat k x) flagName = (define_flag w flagName (FFloat64 x) (''Set '' @ flagName), VFloat k x)"
| "registerFlags_field w (VOther k) flagName = (w, VOther k)"
  by pat_completeness auto
termination
  by (relation "measure (\<lambda>x. case x of
          Inl (w, v, p) \<Rightarrow> 2 * vdepth v
        | Inr (Inl (w, fs, p)) \<Rightarrow> 2 * vdepth_fields fs
        | Inr (Inr (w, v, p)) \<Rightarrow> 2 * vdepth v + 1)")
     (auto simp: new_ptr_def vdepth_zero)


section \<open>Flag overrides (flag.go)\<close>

text \<open>
  The collaborators of the code are parameters of the model (\<open>sys\<close>): the process
  environment, \<open>strconv.ParseFloat\<close> and the rounding to \<open>float32\<close>, the parsing of the
  command line by \<open>cmd.Execute\<close> (from the defined flags to an error or the flags with
  their parsed values), \<open>os.ReadFile\<close> and \<open>yaml.Unmarshal\<close> (which may allocate).

  A run ends in a panic or returns: \<open>Panic\<close> is the outcome of a call that \<open>reflect\<close> or
  \<open>pflag\<close> aborts.

  \<open>applyFlagOverrides_walk\<close> is the second part of \<open>applyFlagOverrides\<close> (the walk over the
  fields); its recursive calls are calls of \<open>applyFlagOverrides\<close> in the source, with the
  flag name of an exported field as prefix. Such a name is never empty, so the first part
  (the \<open>--from-env\<close> loop, run for the empty prefix only) is skipped in every recursive
  call: lemma \<open>applyFlagOverrides_nested\<close> below.

  \<open>navigate\<close> is the loop of \<open>setValueByPath\<close> over all segments but the last, followed by
  the assignment to the field that the last segment names (\<open>setField\<close>); \<open>current\<close> is
  the value the \<open>current\<close> pointer of the source refers to. The loop tests that this
  value is a struct before it looks a field up; the code after the loop does not, and
  \<open>findFieldByNameOrTag\<close> calls \<open>NumField\<close> on its type, which panics for every type
  that is not a struct.
\<close>

datatype error = External string | Wrap string error

datatype 'a outcome = Panic | Ok 'a

record 'f sys =
  environ :: environ
  ParseFloat :: "string \<Rightarrow> 'f option"
  toFloat32 :: "'f \<Rightarrow> 'f"
  Execute :: "'f Flag list \<Rightarrow> error + 'f Flag list"
  ReadFile :: "string \<Rightarrow> error + string"
  Unmarshal :: "string \<Rightarrow> addr \<Rightarrow> 'f val \<Rightarrow> error + addr \<times> 'f val"

definition SetInt :: "ikind \<Rightarrow> 64 word \<Rightarrow> 64 word" where
  "SetInt k x =
     (case k of
        KInt \<Rightarrow> x
      | KInt8 \<Rightarrow> signed_take_bit 7 x
      | KInt16 \<Rightarrow> signed_take_bit 15 x
      | KInt32 \<Rightarrow> signed_take_bit 31 x
      | KInt64 \<Rightarrow> x)"

definition SetFloat :: "'f sys \<Rightarrow> fkind \<Rightarrow> 'f \<Rightarrow> 'f" where
  "SetFloat sys k x = (case k of KFloat32 \<Rightarrow> toFloat32 sys x | KFloat64 \<Rightarrow> x)"

fun applyFlagOverrides_walk :: "('f::zero) sys \<Rightarrow> 'f Flag list \<Rightarrow> 'f val \<Rightarrow> string \<Rightarrow> 'f val"
  and applyFlagOverrides_fields ::
    "('f::zero) sys \<Rightarrow> 'f Flag list \<Rightarrow> (StructField \<times> 'f val) list \<Rightarrow> string \<Rightarrow>
       (StructField \<times> 'f val) list"
  and applyFlagOverrides_field :: "('f::zero) sys \<Rightarrow> 'f Flag list \<Rightarrow> 'f val \<Rightarrow> string \<Rightarrow> 'f val" where
  "applyFlagOverrides_walk sys fl (VStruct fs) pfx = VStruct (applyFlagOverrides_fields sys fl fs pfx)"
| "applyFlagOverrides_walk sys fl (VString s) pfx = VString s"
| "applyFlagOverrides_walk sys fl (VInt k i) pfx = VInt k i"
| "applyFlagOverrides_walk sys fl (VBool b) pfx = VBool b"
| "applyFlagOverrides_walk sys fl (VFloat k x) pfx = VFloat k x"
| "applyFlagOverrides_walk sys fl (VPtr t p) pfx = VPtr t p"
| "applyFlagOverrides_walk sys fl (VOther k) pfx = VOther k"
| "applyFlagOverrides_fields sys fl [] pfx = []"
| "applyFlagOverrides_fields sys fl ((field, fieldValue) # rest) pfx =
     (if \<not> IsExported field then
        (field, fieldValue) # applyFlagOverrides_fields sys fl rest pfx
      else
        (let flagName = flagNameOf pfx field
         in (field, applyFlagOverrides_field sys fl fieldValue flagName)
              # applyFlagOverrides_fields sys fl rest pfx))"
| "applyFlagOverrides_field sys fl (VPtr t None) flagName = VPtr t None"
| "applyFlagOverrides_field sys fl (VPtr t (Some (a, x))) flagName =
     VPtr t (Some (a, applyFlagOverrides_walk sys fl x flagName))"
| "applyFlagOverrides_field sys fl (VStruct fs) flagName =
     applyFlagOverrides_walk sys fl (VStruct fs) flagName"
| "applyFlagOverrides_field sys fl (VString s) flagName =
     (if Changed fl flagName then
        (let val = GetString fl flagName;
             resolvedVal = resolveEnvVar (environ sys) val
         in VString resolvedVal)
      else VString s)"
| "applyFlagOverrides_field sys fl (VInt k i) flagName =
     (if Changed fl flagName then VInt k (SetInt k (GetInt64 fl flagName)) else VInt k i)"
| "applyFlagOverrides_field sys fl (VBool b) flagName =
     (if Changed fl flagName then VBool (GetBool fl flagName) else VBool b)"
| "applyFlagOverrides_field sys fl (VFloat k x) flagName =
     (if Changed fl flagName then VFloat k (SetFloat sys k (GetFloat64 fl flagName))
      else VFloat k x)"
| "applyFlagOverrides_field sys fl (VOther k) flagName = VOther k"

fun findFieldByNameOrTag :: "StructField list \<Rightarrow> string \<Rightarrow> string" where
  "findFieldByNameOrTag [] name = []"
| "findFieldByNameOrTag (field # rest) name =
     (let nameLower = ToLower name
      in if \<not> IsExported field then findFieldByNameOrTag rest name
         else if ToLower (Name field) = nameLower then Name field
         else if yamlTag field \<noteq> [] \<and> ToLower (parts0 (yamlTag field)) = nameLower
           then Name field
         else if jsonTag field \<noteq> [] \<and> ToLower (parts0 (jsonTag field)) = nameLower
           then Name field
         else findFieldByNameOrTag rest name)"

fun FieldByName :: "(StructField \<times> 'a) list \<Rightarrow> string \<Rightarrow> nat option" where
  "FieldByName [] name = None"
| "FieldByName ((field, v) # rest) name =
     (if Name field = name then Some 0 else map_option Suc (FieldByName rest name))"

definition CanSet :: "StructField \<Rightarrow> bool" where
  "CanSet field = IsExported field"

definition setField ::
  "('f::zero) sys \<Rightarrow> 'f world \<Rightarrow> 'f val \<Rightarrow> string \<Rightarrow> string \<Rightarrow> string \<Rightarrow>
     ('f world \<times> 'f val) outcome" where
  "setField sys w current lastSegment path value =
     (case current of
        VStruct fs \<Rightarrow>
          (let fieldName = findFieldByNameOrTag (map fst fs) lastSegment
           in if fieldName = [] then Ok (Fprintf w (ErrFieldNotFound lastSegment path), current)
              else
                (case FieldByName fs fieldName of
                   None \<Rightarrow> Ok (Fprintf w (ErrInvalidField lastSegment path), current)
                 | Some i \<Rightarrow>
                     if \<not> CanSet (fst (fs ! i))
                       then Ok (Fprintf w (ErrCannotSet lastSegment path), current)
                     else
                       (case snd (fs ! i) of
                          VString s \<Rightarrow> Ok (w, VStruct (fs[i := (fst (fs ! i), VString value)]))
                        | VInt k x \<Rightarrow>
                            (case ParseInt value of
                               None \<Rightarrow> Ok (Fprintf w (ErrConvertInt value path), current)
                             | Some intVal \<Rightarrow>
                                 Ok (w, VStruct (fs[i := (fst (fs ! i),
                                       VInt k (SetInt k (word_of_int intVal)))])))
                        | VBool b \<Rightarrow>
                            (case ParseBool value of
                               None \<Rightarrow> Ok (Fprintf w (ErrConvertBool value path), current)
                             | Some boolVal \<Rightarrow>
                                 Ok (w, VStruct (fs[i := (fst (fs ! i), VBool boolVal)])))
                        | VFloat k x \<Rightarrow>
                            (case ParseFloat sys value of
                               None \<Rightarrow> Ok (Fprintf w (ErrConvertFloat value path), current)
                             | Some floatVal \<Rightarrow>
                                 Ok (w, VStruct (fs[i := (fst (fs ! i),
                                       VFloat k (SetFloat sys k floatVal))])))
                        | VPtr t p \<Rightarrow> Ok (Fprintf w (ErrUnsupportedType path), current)
                        | VStruct fs' \<Rightarrow> Ok (Fprintf w (ErrUnsupportedType path), current)
                        | VOther k \<Rightarrow> Ok (Fprintf w (ErrUnsupportedType path), current))))
      | _ \<Rightarrow> Panic)"

fun navigate ::
  "('f::zero) sys \<Rightarrow> 'f world \<Rightarrow> 'f val \<Rightarrow> string list \<Rightarrow> string \<Rightarrow> string \<Rightarrow>
     ('f world \<times> 'f val) outcome" where
  "navigate sys w current [] path value = Ok (Fprintf w ErrEmptyPath, current)"
| "navigate sys w current [lastSegment] path value =
     setField sys w current lastSegment path value"
| "navigate sys w current (seg # next # rest) path value =
     (case current of
        VStruct fs \<Rightarrow>
          (let fieldName = findFieldByNameOrTag (map fst fs) seg
           in if fieldName = [] then Ok (Fprintf w (ErrFieldNotFound seg path), current)
              else
                (case FieldByName fs fieldName of
                   None \<Rightarrow> Ok (Fprintf w (ErrInvalidField seg path), current)
                 | Some i \<Rightarrow>
                     (case snd (fs ! i) of
                        VPtr t None \<Rightarrow>
                          (let (w0, a, x) = new_ptr w t
                           in case navigate sys w0 x (next # rest) path value of
                                Panic \<Rightarrow> Panic
                              | Ok (w', x') \<Rightarrow>
                                  Ok (w', VStruct (fs[i := (fst (fs ! i), VPtr t (Some (a, x')))])))
                      | VPtr t (Some (a, x)) \<Rightarrow>
                          (case navigate sys w x (next # rest) path value of
                             Panic \<Rightarrow> Panic
                           | Ok (w', x') \<Rightarrow>
                               Ok (w', VStruct (fs[i := (fst (fs ! i), VPtr t (Some (a, x')))])))
                      | VStruct fs' \<Rightarrow>
                          (case navigate sys w (VStruct fs') (next # rest) path value of
                             Panic \<Rightarrow> Panic
                           | Ok (w', x') \<Rightarrow> Ok (w', VStruct (fs[i := (fst (fs ! i), x')])))
                      | _ \<Rightarrow> Ok (Fprintf w (ErrNotStructOrPointer seg path), current))))
      | _ \<Rightarrow> Ok (Fprintf w (ErrNotAStruct path seg), current))"

definition setValueByPath ::
  "('f::zero) sys \<Rightarrow> 'f world \<Rightarrow> 'f val \<Rightarrow> string \<Rightarrow> string \<Rightarrow> ('f world \<times> 'f val) outcome" where
  "setValueByPath sys w config path value =
     (let segments = Split path CHR ''.'' in navigate sys w config segments path value)"

fun fromEnvPairs ::
  "('f::zero) sys \<Rightarrow> 'f world \<Rightarrow> 'f val \<Rightarrow> string list \<Rightarrow> ('f world \<times> 'f val) outcome" where
  "fromEnvPairs sys w config [] = Ok (w, config)"
| "fromEnvPairs sys w config (pair # rest) =
     (let parts = SplitN2 pair ''::''
      in if length parts \<noteq> 2
           then fromEnvPairs sys (Fprintf w (WarnInvalidFormat pair)) config rest
         else
           (let configPath = TrimSpace (parts ! 0);
                envVarName = TrimSpace (parts ! 1);
                envValue = Getenv (environ sys) envVarName
            in if envValue = []
                 then fromEnvPairs sys (Fprintf w (WarnEnvNotSet envVarName)) config rest
               else
                 (case setValueByPath sys w config configPath envValue of
                    Panic \<Rightarrow> Panic
                  | Ok (w', config') \<Rightarrow> fromEnvPairs sys w' config' rest)))"

definition applyFlagOverrides ::
  "('f::zero) sys \<Rightarrow> 'f world \<Rightarrow> 'f val \<Rightarrow> string \<Rightarrow> ('f world \<times> 'f val) outcome" where
  "applyFlagOverrides sys w config pfx =
     (case (if pfx = [] \<and> Changed (flagset w) ''from-env''
            then fromEnvPairs sys w config (GetStringSlice (flagset w) ''from-env'')
            else Ok (w, config)) of
        Panic \<Rightarrow> Panic
      | Ok (w', config') \<Rightarrow> Ok (w', applyFlagOverrides_walk sys (flagset w') config' pfx))"

section \<open>The entry point (config.go, New)\<close>

text \<open>
  \<open>New sys h configObject\<close> is the call \<open>New(&configObject)\<close> with \<open>h\<close> the next free
  address. It returns \<open>Inl err\<close> for \<open>(nil, err)\<close> and \<open>Inr (w, c)\<close> for
  \<open>(configObject, nil)\<close>, where \<open>c\<close> is the object after the call and \<open>w\<close> the final
  state. \<open>pflag\<close> panics when a flag is defined under a name that is already defined; a
  panic discards the state, so the definitions are recorded in order and the panic is
  raised once the registration is complete.
\<close>

definition from_env_usage :: string where
  "from_env_usage =
     ''Set config values from environment variables in format '' @ [CHR 0x27] @
     ''config.path::ENV_VAR_NAME'' @ [CHR 0x27]"

definition loadConfigFile ::
  "'f sys \<Rightarrow> 'f world \<Rightarrow> 'f val \<Rightarrow> string \<Rightarrow> error + 'f world \<times> 'f val" where
  "loadConfigFile sys w configObject configFile =
     (if configFile \<noteq> [] then
        (case ReadFile sys configFile of
           Inl err \<Rightarrow> Inl (Wrap ''failed to read config file'' err)
         | Inr data \<Rightarrow>
             (case Unmarshal sys data (heap_next w) configObject of
                Inl err \<Rightarrow> Inl (Wrap ''failed to unmarshal config file'' err)
              | Inr (h, configObject') \<Rightarrow> Inr (w\<lparr>heap_next := h\<rparr>, configObject')))
      else Inr (w, configObject))"

definition initial_cmd :: "addr \<Rightarrow> 'f world" where
  "initial_cmd h =
     (let cmd = \<lparr>flagset = [], heap_next = h, stderr = []\<rparr>;
          cmd = define_flag cmd ''config'' (FString []) ''Path to config file'';
          cmd = define_flag cmd ''from-env'' (FStringSlice []) from_env_usage
      in cmd)"

definition New ::
  "('f::zero) sys \<Rightarrow> addr \<Rightarrow> 'f val \<Rightarrow> (error + 'f world \<times> 'f val) outcome" where
  "New sys h configObject =
     (let cmd = initial_cmd h;
          (w, configObject) = registerFlags cmd configObject []
      in if \<not> distinct (map fl_name (flagset w)) then Panic
         else
           (case Execute sys (flagset w) of
              Inl err \<Rightarrow> Ok (Inl err)
            | Inr parsed \<Rightarrow>
                (let w = w\<lparr>flagset := parsed\<rparr>;
                     configFile = GetString (flagset w) ''config''
                 in case loadConfigFile sys w configObject configFile of
                      Inl err \<Rightarrow> Ok (Inl err)
                    | Inr (w, configObject) \<Rightarrow>
                        (case applyFlagOverrides sys w configObject [] of
                           Panic \<Rightarrow> Panic
                         | Ok r \<Rightarrow> Ok (Inr r)))))"

section \<open>Notions used in the statements\<close>




text \<open>
  The flag surface as the specification words it. The segment name of a field is the first
  comma-separated part of its \<open>yaml\<close> tag when that is not empty, and the name of the
  field otherwise; a path is joined with dots. \<open>leaves v\<close> lists the leaves of \<open>v\<close>:
  for every exported field of a primitive kind, reached through exported struct fields
  and exported pointers to structs (an absent optional struct counts as an empty one),
  the path of segment names and the current value as a flag value of the matching type.
  Fields of other kinds contribute nothing.
\<close>

definition segment_name :: "StructField \<Rightarrow> string" where
  "segment_name f = (if parts0 (yamlTag f) \<noteq> [] then parts0 (yamlTag f) else Name f)"




definition qualify :: "string \<Rightarrow> string \<Rightarrow> string" where
  "qualify pfx name = (if pfx \<noteq> [] then pfx @ ''.'' @ name else name)"








text \<open>
  \<open>no_nil v\<close>: no pointer that the walk over \<open>v\<close> reaches is nil.
\<close>

fun no_nil :: "'f val \<Rightarrow> bool"
  and no_nil_fields :: "(StructField \<times> 'f val) list \<Rightarrow> bool"
  and no_nil_field :: "'f val \<Rightarrow> bool" where
  "no_nil (VStruct fs) = no_nil_fields fs"
| "no_nil (VString s) = True"
| "no_nil (VInt k i) = True"
| "no_nil (VBool b) = True"
| "no_nil (VFloat k x) = True"
| "no_nil (VPtr t p) = True"
| "no_nil (VOther k) = True"
| "no_nil_fields [] = True"
| "no_nil_fields ((f, v) # rest) =
     ((if IsExported f then no_nil_field v else True) \<and> no_nil_fields rest)"
| "no_nil_field (VPtr t None) = False"
| "no_nil_field (VPtr t (Some (a, x))) = no_nil x"
| "no_nil_field (VStruct fs) = no_nil (VStruct fs)"
| "no_nil_field (VString s) = True"
| "no_nil_field (VInt k i) = True"
| "no_nil_field (VBool b) = True"
| "no_nil_field (VFloat k x) = True"
| "no_nil_field (VOther k) = True"

section \<open>Example inputs\<close>

text \<open>
  Concrete configuration objects, environments and command lines, at which the theorems
  below are instantiated. No example has a floating-point field; the type of
  floating-point values is instantiated by \<open>int\<close>. \<open>example_sys env parse\<close> has the
  environment \<open>env\<close>, a command line whose parsing is \<open>parse\<close>, and no configuration
  file.
\<close>

definition returned_object :: "(error + 'f world \<times> 'f val) outcome \<Rightarrow> 'f val option" where
  "returned_object r = (case r of Ok (Inr (w, c)) \<Rightarrow> Some c | _ \<Rightarrow> None)"

definition set_flag :: "string \<Rightarrow> 'f FlagValue \<Rightarrow> 'f Flag list \<Rightarrow> 'f Flag list" where
  "set_flag name v fs =
     map (\<lambda>f. if fl_name f = name then f\<lparr>fl_value := v, fl_changed := True\<rparr> else f) fs"

definition example_sys :: "environ \<Rightarrow> (int Flag list \<Rightarrow> int Flag list) \<Rightarrow> int sys" where
  "example_sys env parse =
     \<lparr>environ = env, ParseFloat = (\<lambda>s. None), toFloat32 = (\<lambda>x. x),
      Execute = (\<lambda>fs. Inr (parse fs)),
      ReadFile = (\<lambda>p. Inl (External ''no such file'')),
      Unmarshal = (\<lambda>d h v. Inr (h, v))\<rparr>"

definition host_field :: StructField where
  "host_field = \<lparr>Name = ''Host'', yamlTag = ''host'', jsonTag = []\<rparr>"

definition host_fields :: "string \<Rightarrow> (StructField \<times> int val) list" where
  "host_fields s = [(host_field, VString s)]"

definition host_config :: "string \<Rightarrow> int val" where
  "host_config s = VStruct (host_fields s)"

definition indirect_environ :: environ where
  "indirect_environ = [''HOME'' \<mapsto> ''/root'', ''REF'' \<mapsto> ''$HOME'']"

definition indirect_sys :: "int sys" where
  "indirect_sys = example_sys indirect_environ (set_flag ''from-env'' (FStringSlice [''host::REF'']))"

definition port_config :: "int val" where
  "port_config = VStruct [(\<lparr>Name = ''Port'', yamlTag = ''port'', jsonTag = []\<rparr>, VPtr (TInt KInt) None)]"

definition port_sys :: "int sys" where
  "port_sys = example_sys [''V'' \<mapsto> ''1''] (set_flag ''from-env'' (FStringSlice [''port.x::V'']))"

definition precedence_world :: "int world" where
  "precedence_world =
     \<lparr>flagset =
        [\<lparr>fl_name = ''from-env'', fl_value = FStringSlice [''host::REF''], fl_usage = [],
          fl_changed = True\<rparr>,
         \<lparr>fl_name = ''host'', fl_value = FString ''${HOME}'', fl_usage = ''Set host'',
          fl_changed = True\<rparr>],
      heap_next = 0, stderr = []\<rparr>"

definition secret_field :: StructField where
  "secret_field = \<lparr>Name = ''secret'', yamlTag = ''secret'', jsonTag = []\<rparr>"

definition secret_fields :: "(StructField \<times> int val) list" where
  "secret_fields = [(host_field, VString []), (secret_field, VString ''s3'')]"

definition secret_config :: "int val" where
  "secret_config = VStruct secret_fields"

definition secret_sys :: "int sys" where
  "secret_sys = example_sys [''V'' \<mapsto> ''leak'']
     (set_flag ''from-env'' (FStringSlice [''secret::V'', ''host::V'']))"

definition opt_type :: ty where
  "opt_type = TStruct [(\<lparr>Name = ''X'', yamlTag = ''x'', jsonTag = []\<rparr>, TInt KInt)]"

definition opt_field :: StructField where
  "opt_field = \<lparr>Name = ''Opt'', yamlTag = ''opt'', jsonTag = []\<rparr>"

definition opt_fields :: "(addr \<times> int val) option \<Rightarrow> (StructField \<times> int val) list" where
  "opt_fields p = [(opt_field, VPtr opt_type p)]"

definition opt_config :: "(addr \<times> int val) option \<Rightarrow> int val" where
  "opt_config p = VStruct (opt_fields p)"

definition opt_struct :: "64 word \<Rightarrow> int val" where
  "opt_struct i = VStruct [(\<lparr>Name = ''X'', yamlTag = ''x'', jsonTag = []\<rparr>, VInt KInt i)]"

definition opt_sys :: "int sys" where
  "opt_sys = example_sys [''V'' \<mapsto> ''42''] (set_flag ''from-env'' (FStringSlice [''opt.x::V'']))"

definition opt_world :: "int world" where
  "opt_world =
     \<lparr>flagset =
        [\<lparr>fl_name = ''from-env'', fl_value = FStringSlice [''opt.x::V''], fl_usage = [],
          fl_changed = True\<rparr>],
      heap_next = 8, stderr = []\<rparr>"

definition quiet_sys :: "int sys" where
  "quiet_sys = example_sys Map.empty (\<lambda>fs. fs)"

section \<open>Properties of inline substitution\<close>

lemma Getenv_substitute:
  "(if Getenv env name \<noteq> [] then Getenv env name else s) = substitute_or_keep env name s"
  by (simp add: Getenv_def substitute_or_keep_def split: option.splits)

lemma take2_prefix: "(take 2 s = ''${'') = prefix ''${'' s"
proof (cases s)
  case Nil
  then show ?thesis by simp
next
  case (Cons a t)
  then show ?thesis by (cases t) auto
qed

lemma last_suffix: "s \<noteq> [] \<Longrightarrow> (s ! (length s - 1) = c) = suffix [c] s"
proof -
  assume ne: "s \<noteq> []"
  then have "s = butlast s @ [last s]" by simp
  moreover have "s ! (length s - 1) = last s" using ne by (simp add: last_conv_nth)
  ultimately show ?thesis
    by (metis last_snoc suffixE suffixI)
qed

lemma enclosed_name: "drop 2 (take (length s - 1) s) = butlast (drop 2 s)"
  by (simp add: butlast_conv_take drop_take numeral_3_eq_3)

lemma first_prefix: "s \<noteq> [] \<Longrightarrow> (s ! 0 = c) = prefix [c] s"
  by (cases s) auto

text \<open>
  C2: for every environment and every input string, the source's substitution function
  computes exactly the rule of the specification: the \<open>${NAME}\<close> form for strings of at
  least 4 characters, then the \<open>$NAME\<close> form, a fallback to the unchanged string when
  the variable is unset or empty, and every other string (the empty one too) unchanged.
\<close>

theorem C2_resolveEnvVar_refines_spec:
  "resolveEnvVar env s = inline_substitution_spec env s"
proof (cases "s = []")
  case True
  then show ?thesis
    by (simp add: resolveEnvVar_def inline_substitution_spec_def)
next
  case False
  have len: "(3 < length s) = (4 \<le> length s)" by arith
  show ?thesis
    unfolding resolveEnvVar_def inline_substitution_spec_def Let_def
      Getenv_substitute take2_prefix last_suffix [OF False] first_prefix [OF False]
      enclosed_name len
    using False by (simp add: drop_Suc)
qed

section \<open>Every phase evolves the object\<close>











section \<open>What evolution preserves\<close>









section \<open>Evaluation of the examples\<close>

lemmas eval_simps =
  SplitN2_def TrimSpace_def is_space_def Getenv_def setValueByPath_def setField_def
  ToLower_def to_lower_def upper_letters_def lower_letters_def IsExported_def is_upper_def
  CanSet_def Fprintf_def new_ptr_def parts0_def fieldName_def flagNameOf_def define_flag_def
  New_def initial_cmd_def applyFlagOverrides_def loadConfigFile_def
  Changed_def Lookup_def GetString_def GetStringSlice_def GetInt64_def GetBool_def
  example_sys_def set_flag_def returned_object_def from_env_usage_def Let_def

lemmas example_simps =
  indirect_sys_def indirect_environ_def host_config_def host_fields_def host_field_def
  precedence_world_def secret_fields_def opt_fields_def
  secret_field_def secret_config_def secret_sys_def opt_type_def opt_field_def opt_config_def
  opt_struct_def opt_sys_def opt_world_def quiet_sys_def

section \<open>The flags that registration defines\<close>

lemma parts0_empty: "parts0 [] = []"
  by (simp add: parts0_def)

lemma segment_name_fieldName: "segment_name f = fieldName f"
  by (auto simp: segment_name_def fieldName_def parts0_empty)

lemma flagNameOf_qualify: "flagNameOf pfx f = qualify pfx (segment_name f)"
  by (simp add: flagNameOf_def qualify_def segment_name_fieldName)



lemma segment_name_nonempty: "IsExported f \<Longrightarrow> segment_name f \<noteq> []"
  by (auto simp: segment_name_def IsExported_def split: list.splits)





section \<open>Assignment by path\<close>







section \<open>Skipped entries of --from-env\<close>





section \<open>Segment matching\<close>




section \<open>Precedence\<close>











section \<open>Allocation\<close>

lemma registerFlags_no_nil:
  "no_nil (snd (registerFlags w v pfx))"
  "no_nil_fields (snd (registerFlags_fields w fs pfx))"
  "no_nil_field (snd (registerFlags_field w v pfx))"
  by (induction w v pfx and w fs pfx and w v pfx
      rule: registerFlags_registerFlags_fields_registerFlags_field.induct)
     (auto simp: Let_def new_ptr_def split: prod.splits)


lemma walk_unchanged:
  "\<forall>n. \<not> Changed fl n \<Longrightarrow> applyFlagOverrides_walk sys fl v pfx = v"
  "\<forall>n. \<not> Changed fl n \<Longrightarrow> applyFlagOverrides_fields sys fl fs pfx = fs"
  "\<forall>n. \<not> Changed fl n \<Longrightarrow> applyFlagOverrides_field sys fl v pfx = v"
  by (induction sys fl v pfx and sys fl fs pfx and sys fl v pfx
      rule: applyFlagOverrides_walk_applyFlagOverrides_fields_applyFlagOverrides_field.induct)
     (auto simp: Let_def)










text \<open>
  C10: the resolution changes the object even when it assigns no leaf. After flag
  registration no reachable pointer is nil; a call whose command line sets no flag, names
  no file and gives no mapping returns the object as registration left it, with every
  reachable optional struct allocated. And when the first segment of a path names a nil
  pointer, navigation allocates it before it looks at the rest of the path: the pointer
  is allocated in every object that the assignment returns, also when a later segment
  fails.
\<close>

theorem C10_resolution_allocates:
  "no_nil (snd (registerFlags w config pfx)) \<and>
   (registerFlags (initial_cmd h) config [] = (w1, c1) \<and>
    distinct (map fl_name (flagset w1)) \<and>
    Execute sys (flagset w1) = Inr parsed \<and> (\<forall>n. \<not> Changed parsed n) \<and>
    GetString parsed ''config'' = [] \<longrightarrow>
      New sys h config = Ok (Inr (w1\<lparr>flagset := parsed\<rparr>, c1)) \<and> no_nil c1) \<and>
   (findFieldByNameOrTag (map fst fs) seg \<noteq> [] \<and>
    FieldByName fs (findFieldByNameOrTag (map fst fs) seg) = Some i \<and>
    snd (fs ! i) = VPtr t None \<and>
    navigate sys w (VStruct fs) (seg # nxt # rest) path s = Ok (w', c') \<longrightarrow>
      (\<exists>x. c' = VStruct (fs[i := (fst (fs ! i), VPtr t (Some (heap_next w, x)))])))"
proof -
  have 1: "no_nil (snd (registerFlags w config pfx))"
    by (rule registerFlags_no_nil(1))
  have 2: "New sys h config = Ok (Inr (w1\<lparr>flagset := parsed\<rparr>, c1)) \<and> no_nil c1"
    if a: "registerFlags (initial_cmd h) config [] = (w1, c1)"
      "distinct (map fl_name (flagset w1))"
      "Execute sys (flagset w1) = Inr parsed" "\<forall>n. \<not> Changed parsed n"
      "GetString parsed ''config'' = []"
  proof -
    from registerFlags_no_nil(1) [of "initial_cmd h" config "[]"] a(1) have "no_nil c1" by simp
    moreover have "New sys h config = Ok (Inr (w1\<lparr>flagset := parsed\<rparr>, c1))"
      using a by (simp add: New_def Let_def loadConfigFile_def applyFlagOverrides_def
          walk_unchanged(1))
    ultimately show ?thesis by simp
  qed
  have 3: "\<exists>x. c' = VStruct (fs[i := (fst (fs ! i), VPtr t (Some (heap_next w, x)))])"
    if "findFieldByNameOrTag (map fst fs) seg \<noteq> []"
      "FieldByName fs (findFieldByNameOrTag (map fst fs) seg) = Some i"
      "snd (fs ! i) = VPtr t None"
      "navigate sys w (VStruct fs) (seg # nxt # rest) path s = Ok (w', c')"
    using that by (auto simp: Let_def new_ptr_def split: outcome.splits)
  from 1 2 3 show ?thesis by blast
qed

text \<open>
  \<open>New\<close>, called with an empty command line on an object whose \<open>Opt\<close> is nil, returns
  the object with \<open>Opt\<close> allocated. The path \<open>opt.nope\<close> names no field of the optional
  struct: the assignment writes a diagnostic, and \<open>Opt\<close> is allocated all the same.
\<close>

theorem C10_witness:
  "no_nil (snd (registerFlags (initial_cmd 0) (opt_config None) [])) \<and>
   New quiet_sys 0 (opt_config None) =
     Ok (Inr ((fst (registerFlags (initial_cmd 0) (opt_config None) []))
                \<lparr>flagset := flagset (fst (registerFlags (initial_cmd 0) (opt_config None) []))\<rparr>,
              snd (registerFlags (initial_cmd 0) (opt_config None) []))) \<and>
   snd (registerFlags (initial_cmd 0 :: int world) (opt_config None) []) =
     opt_config (Some (0, opt_struct 0)) \<and>
   navigate quiet_sys opt_world (VStruct (opt_fields None)) [''opt'', ''nope'']
       ''opt.nope'' ''1'' =
     Ok (opt_world\<lparr>heap_next := 9, stderr := [ErrFieldNotFound ''nope'' ''opt.nope'']\<rparr>,
         opt_config (Some (8, opt_struct 0))) \<and>
   (\<exists>x. opt_config (Some (8, opt_struct 0)) =
      VStruct ((opt_fields None)
        [0 := (fst (opt_fields None ! 0),
               VPtr opt_type (Some (heap_next opt_world, x)))]))"
proof -
  let ?r = "registerFlags (initial_cmd 0 :: int world) (opt_config None) []"
  have r: "?r = (fst ?r, snd ?r)" by simp
  have a: "distinct (map fl_name (flagset (fst ?r)))"
    by (simp add: eval_simps example_simps)
  have b: "Execute quiet_sys (flagset (fst ?r)) = Inr (flagset (fst ?r))"
    by (simp add: quiet_sys_def example_sys_def)
  have c: "\<forall>n. \<not> Changed (flagset (fst ?r)) n"
    by (simp add: eval_simps example_simps)
  have d: "GetString (flagset (fst ?r)) ''config'' = []"
    by (simp add: eval_simps example_simps)
  have e: "snd ?r = opt_config (Some (0, opt_struct 0))"
    by (simp add: eval_simps example_simps)
  have f: "findFieldByNameOrTag (map fst (opt_fields None)) ''opt'' \<noteq> []"
    "FieldByName (opt_fields None)
       (findFieldByNameOrTag (map fst (opt_fields None)) ''opt'') = Some 0"
    "snd (opt_fields None ! 0) = VPtr opt_type None"
    by (simp_all add: eval_simps example_simps)
  have g: "navigate quiet_sys opt_world (VStruct (opt_fields None))
       [''opt'', ''nope''] ''opt.nope'' ''1'' =
     Ok (opt_world\<lparr>heap_next := 9, stderr := [ErrFieldNotFound ''nope'' ''opt.nope'']\<rparr>,
         opt_config (Some (8, opt_struct 0)))"
    by (simp add: eval_simps example_simps)
  note t = C10_resolution_allocates [where w = "initial_cmd 0" and config = "opt_config None"
      and pfx = "[]" and h = 0 and ?w1.0 = "fst ?r" and ?c1.0 = "snd ?r" and sys = quiet_sys
      and parsed = "flagset (fst ?r)" and fs = "opt_fields None"
      and seg = "''opt''" and i = 0 and t = opt_type and nxt = "''nope''" and rest = "[]"
      and path = "''opt.nope''" and s = "''1''"
      and w' = "opt_world\<lparr>heap_next := 9, stderr := [ErrFieldNotFound ''nope'' ''opt.nope'']\<rparr>"
      and c' = "opt_config (Some (8, opt_struct 0))"]
  from t [THEN conjunct1] have 1: "no_nil (snd ?r)" .
  from t [THEN conjunct2, THEN conjunct1] r a b c d
  have 2: "New quiet_sys 0 (opt_config None) =
       Ok (Inr ((fst ?r)\<lparr>flagset := flagset (fst ?r)\<rparr>, snd ?r))"
    by blast
  have ante: "findFieldByNameOrTag (map fst (opt_fields None)) ''opt'' \<noteq> [] \<and>
    FieldByName (opt_fields None)
       (findFieldByNameOrTag (map fst (opt_fields None)) ''opt'') = Some 0 \<and>
    snd (opt_fields None ! 0) = VPtr opt_type None \<and>
    navigate quiet_sys opt_world (VStruct (opt_fields None))
       (''opt'' # ''nope'' # []) ''opt.nope'' ''1'' =
     Ok (opt_world\<lparr>heap_next := 9, stderr := [ErrFieldNotFound ''nope'' ''opt.nope'']\<rparr>,
         opt_config (Some (8, opt_struct 0)))"
    using f g by (intro conjI)
  from C10_resolution_allocates [where w = opt_world and config = "opt_config None"
      and pfx = "[]" and h = 0 and ?w1.0 = "fst ?r" and ?c1.0 = "snd ?r" and sys = quiet_sys
      and parsed = "flagset (fst ?r)" and fs = "opt_fields None"
      and seg = "''opt''" and i = 0 and t = opt_type and nxt = "''nope''" and rest = "[]"
      and path = "''opt.nope''" and s = "''1''"
      and w' = "opt_world\<lparr>heap_next := 9, stderr := [ErrFieldNotFound ''nope'' ''opt.nope'']\<rparr>"
      and c' = "opt_config (Some (8, opt_struct 0))", THEN conjunct2, THEN conjunct2] ante
  have 3: "\<exists>x. opt_config (Some (8, opt_struct 0)) =
      VStruct ((opt_fields None)
        [0 := (fst (opt_fields None ! 0),
               VPtr opt_type (Some (heap_next opt_world, x)))])"
    by (rule mp)
  from 1 2 3 e g show ?thesis by blast
qed

section \<open>Unexported fields\<close>





section \<open>The recursive calls of applyFlagOverrides, the errors and the panics of New\<close>

text \<open>
  The prefix of a recursive call of \<open>applyFlagOverrides\<close> is the flag name of an exported
  field, which is not empty: the call is the walk alone. \<open>New\<close> returns no other error
  than that of the command line or a wrapped error of the file.
\<close>

lemma flagNameOf_nonempty: "IsExported field \<Longrightarrow> flagNameOf pfx field \<noteq> []"
  using segment_name_nonempty [of field]
  by (simp add: flagNameOf_qualify qualify_def)

lemma applyFlagOverrides_nested:
  "IsExported field \<Longrightarrow>
     applyFlagOverrides sys w v (flagNameOf pfx field) =
       Ok (w, applyFlagOverrides_walk sys (flagset w) v (flagNameOf pfx field))"
  using flagNameOf_nonempty [of field pfx] by (simp add: applyFlagOverrides_def)

lemma New_returns_error:
  "New sys h config = Ok (Inl err) \<Longrightarrow>
     (\<exists>fl. Execute sys fl = Inl err) \<or>
     (\<exists>e. err = Wrap ''failed to read config file'' e) \<or>
     (\<exists>e. err = Wrap ''failed to unmarshal config file'' e)"
  by (auto simp: New_def Let_def loadConfigFile_def
      split: prod.splits if_splits sum.splits outcome.splits)

text \<open>
  C5 fails on the code: for a configuration with a field \<open>Port *int\<close>, the mapping
  \<open>--from-env port.x::V\<close> makes \<open>New\<close> panic. It neither returns an error nor the
  object.
\<close>

theorem C5_panic:
  "New port_sys 0 port_config = Panic"
  by (simp add: eval_simps port_sys_def port_config_def)

end
